theory Spec2Isabelle
  imports Main "HOL-Library.Multiset"
begin

section \<open>The wireless ADB scanner: data model\<close>

text \<open>
  The script \<^verbatim>\<open>adb_quick_connect_wireless.py\<close> discovers the local IPv4 network,
  puts every host address of it on a queue and lets \<^verbatim>\<open>NUM_THREADS\<close> worker threads
  ping each address and try \<^verbatim>\<open>adb connect\<close> on those that answer. A module-level
  \<^verbatim>\<open>threading.Event\<close> stops the workers once one connection has been made.

  Everything outside the script is a field of the environment \<open>env\<close>: the interface
  table of \<^verbatim>\<open>netifaces\<close>, the constructor \<^verbatim>\<open>ipaddress.IPv4Network\<close>, the host list of
  a network, \<^verbatim>\<open>os.name\<close> and what \<^verbatim>\<open>subprocess.run\<close> does with a command and a timeout.
  The threads are an interleaving of atomic steps, one step function per worker and a
  schedule (the list of worker indices in the order in which they move).
\<close>

type_synonym address = nat
  \<comment> \<open>an \<^verbatim>\<open>IPv4Address\<close>, as its integer value\<close>

type_synonym network = "nat \<times> nat"
  \<comment> \<open>an \<^verbatim>\<open>IPv4Network\<close>: base address and prefix length\<close>

datatype exn =
    CalledProcessError string   \<comment> \<open>carries \<^verbatim>\<open>e.stderr\<close>\<close>
  | TimeoutExpired
  | FileNotFoundError
  | OSError                     \<comment> \<open>any other failure to launch the child\<close>
  | ValueError                  \<comment> \<open>raised by \<^verbatim>\<open>IPv4Network\<close> on a malformed string\<close>

datatype command =
    Ping_cmd string address     \<comment> \<open>\<^verbatim>\<open>['ping', param, str(ip_address)]\<close>\<close>
  | Adb_connect_cmd address nat \<comment> \<open>\<^verbatim>\<open>["adb", "connect", f"{ip_address}:{ADB_PORT}"]\<close>\<close>

datatype proc_outcome =
    Exited int string string    \<comment> \<open>return code, stdout, stderr\<close>
  | Timed_out
  | Not_found
  | Os_failure

record link =
  addr :: string
  netmask :: "string option"    \<comment> \<open>\<^verbatim>\<open>link.get('netmask')\<close>\<close>

record iface =
  if_name :: string
  af_inet :: "link list option" \<comment> \<open>\<^verbatim>\<open>addresses[netifaces.AF_INET]\<close>, when the key is there\<close>

record env =
  os_name :: string
  interfaces :: "iface list"
  ipv4_network :: "string \<Rightarrow> exn + network"
  hosts :: "network \<Rightarrow> address list"
  subprocess_run :: "command \<Rightarrow> nat \<Rightarrow> proc_outcome"

datatype msg =
    Discovered_network network
  | Error_discovering exn
  | Could_not_determine         \<comment> \<open>"Could not determine local network. Exiting."\<close>
  | Scanning_hosts nat
  | May_take_a_while
  | Worker_checking nat address
  | Host_online address
  | Attempting address nat
  | Adb_output address nat string
  | Successfully_connected address
  | Adb_not_found
  | Adb_timeout address nat
  | Adb_failed address nat
  | Adb_stderr string
  | Unexpected_error exn
  | Scan_complete

definition NUM_THREADS :: nat where
  "NUM_THREADS = 50"

definition ADB_PORT :: nat where
  "ADB_PORT = 5555"

section \<open>Network discovery\<close>

definition truthy :: "string option \<Rightarrow> bool" where
  "truthy m = (case m of None \<Rightarrow> False | Some t \<Rightarrow> t \<noteq> [])"

definition usable :: "link \<Rightarrow> bool" where
  "usable l = (addr l \<noteq> ''127.0.0.1'' \<and> truthy (netmask l))"

definition network_of :: "env \<Rightarrow> link \<Rightarrow> exn + network" where
  "network_of e l = ipv4_network e (addr l @ ''/'' @ (case netmask l of None \<Rightarrow> [] | Some t \<Rightarrow> t))"

text \<open>The inner loop over the IPv4 links of one interface: \<open>Inr None\<close> is "fell through".\<close>

fun scan_links :: "env \<Rightarrow> link list \<Rightarrow> exn + network option" where
  "scan_links e [] = Inr None"
| "scan_links e (l # ls) =
     (if usable l
      then (case network_of e l of Inl x \<Rightarrow> Inl x | Inr n \<Rightarrow> Inr (Some n))
      else scan_links e ls)"

fun scan_ifaces :: "env \<Rightarrow> iface list \<Rightarrow> exn + network option" where
  "scan_ifaces e [] = Inr None"
| "scan_ifaces e (i # is) =
     (case af_inet i of
        None \<Rightarrow> scan_ifaces e is
      | Some ls \<Rightarrow>
          (case scan_links e ls of
             Inl x \<Rightarrow> Inl x
           | Inr (Some n) \<Rightarrow> Inr (Some n)
           | Inr None \<Rightarrow> scan_ifaces e is))"

definition get_local_network_info :: "env \<Rightarrow> msg list \<times> network option" where
  "get_local_network_info e =
     (case scan_ifaces e (interfaces e) of
        Inl x \<Rightarrow> ([Error_discovering x], None)
      | Inr None \<Rightarrow> ([], None)
      | Inr (Some n) \<Rightarrow> ([Discovered_network n], Some n))"

section \<open>The two collaborators\<close>

text \<open>\<^verbatim>\<open>subprocess.run(command, check=True, timeout=t)\<close>.\<close>

definition run_checked :: "env \<Rightarrow> command \<Rightarrow> nat \<Rightarrow> exn + string" where
  "run_checked e c t =
     (case subprocess_run e c t of
        Exited rc out err \<Rightarrow> if rc \<noteq> 0 then Inl (CalledProcessError err) else Inr out
      | Timed_out \<Rightarrow> Inl TimeoutExpired
      | Not_found \<Rightarrow> Inl FileNotFoundError
      | Os_failure \<Rightarrow> Inl OSError)"

definition ping_command :: "env \<Rightarrow> address \<Rightarrow> command" where
  "ping_command e ip = Ping_cmd (if os_name e = ''nt'' then ''-n 1'' else ''-c 1'') ip"

definition ping_host :: "env \<Rightarrow> address \<Rightarrow> exn + bool" where
  "ping_host e ip =
     (case run_checked e (ping_command e ip) 1 of
        Inr _ \<Rightarrow> Inr True
      | Inl (CalledProcessError _) \<Rightarrow> Inr False
      | Inl TimeoutExpired \<Rightarrow> Inr False
      | Inl x \<Rightarrow> Inl x)"

text \<open>Python's \<^verbatim>\<open>needle in haystack\<close> on strings.\<close>

fun starts_with :: "string \<Rightarrow> string \<Rightarrow> bool" where
  "starts_with [] ys = True"
| "starts_with (x # xs) [] = False"
| "starts_with (x # xs) (y # ys) = (x = y \<and> starts_with xs ys)"

fun str_in :: "string \<Rightarrow> string \<Rightarrow> bool" where
  "str_in n [] = (n = [])"
| "str_in n (h # hs) = (starts_with n (h # hs) \<or> str_in n hs)"

definition attempt_adb_connect :: "env \<Rightarrow> address \<Rightarrow> msg list \<times> (exn + bool)" where
  "attempt_adb_connect e ip =
     (case run_checked e (Adb_connect_cmd ip ADB_PORT) 5 of
        Inr out \<Rightarrow>
          if str_in ''connected to'' out
          then ([Attempting ip ADB_PORT, Adb_output ip ADB_PORT out, Successfully_connected ip],
                Inr True)
          else ([Attempting ip ADB_PORT, Adb_output ip ADB_PORT out], Inr False)
      | Inl FileNotFoundError \<Rightarrow> ([Attempting ip ADB_PORT, Adb_not_found], Inr False)
      | Inl TimeoutExpired \<Rightarrow> ([Attempting ip ADB_PORT, Adb_timeout ip ADB_PORT], Inr False)
      | Inl (CalledProcessError err) \<Rightarrow>
          ([Attempting ip ADB_PORT, Adb_failed ip ADB_PORT, Adb_stderr err], Inr False)
      | Inl x \<Rightarrow> ([Attempting ip ADB_PORT], Inl x))"

section \<open>The workers\<close>

text \<open>
  Where a worker stands in \<^verbatim>\<open>worker\<close>: before the test of the \<^verbatim>\<open>while\<close>, before
  \<^verbatim>\<open>queue.get\<close>, before \<^verbatim>\<open>ping_host\<close>, before \<^verbatim>\<open>attempt_adb_connect\<close>, before
  \<^verbatim>\<open>stop_event.set()\<close>, before \<^verbatim>\<open>queue.task_done()\<close>, or returned.
\<close>

datatype pc =
    At_loop
  | At_get
  | At_ping address
  | At_connect address
  | At_set
  | At_task_done
  | Exited_worker

datatype event =
    Dequeued nat address
  | Probed nat address
  | Connect_called nat address bool  \<comment> \<open>the flag says whether \<^verbatim>\<open>stop_event\<close> was set when the call began\<close>
  | Stop_set nat

record state =
  queue :: "address list"
  stop_event :: bool
  pcs :: "pc list"
  out :: "msg list"
  trace :: "event list"

definition goto :: "nat \<Rightarrow> pc \<Rightarrow> state \<Rightarrow> state" where
  "goto i p s = s\<lparr>pcs := (pcs s)[i := p]\<rparr>"

definition say :: "msg list \<Rightarrow> state \<Rightarrow> state" where
  "say ms s = s\<lparr>out := out s @ ms\<rparr>"

definition emit :: "event \<Rightarrow> state \<Rightarrow> state" where
  "emit ev s = s\<lparr>trace := trace s @ [ev]\<rparr>"

text \<open>
  One atomic step of worker \<open>i\<close>. \<^verbatim>\<open>queue.get(timeout=1)\<close> on an empty queue raises
  \<^verbatim>\<open>queue.Empty\<close> (nothing is ever put after the workers start), which leaves the loop;
  any other exception is printed by \<^verbatim>\<open>except Exception\<close> and the loop goes on, without
  \<^verbatim>\<open>task_done\<close>. The counter behind \<^verbatim>\<open>task_done\<close> is read nowhere (\<^verbatim>\<open>main\<close> never
  joins the queue), so that step only moves the worker.
\<close>

definition worker_step :: "env \<Rightarrow> nat \<Rightarrow> state \<Rightarrow> state" where
  "worker_step e i s =
     (if length (pcs s) \<le> i then s
      else case pcs s ! i of
        At_loop \<Rightarrow> if stop_event s then goto i Exited_worker s else goto i At_get s
      | At_get \<Rightarrow>
          (case queue s of
             [] \<Rightarrow> goto i Exited_worker s
           | ip # q \<Rightarrow>
               goto i (At_ping ip) (say [Worker_checking i ip] (emit (Dequeued i ip) (s\<lparr>queue := q\<rparr>))))
      | At_ping ip \<Rightarrow>
          (case ping_host e ip of
             Inr True \<Rightarrow> goto i (At_connect ip) (say [Host_online ip] (emit (Probed i ip) s))
           | Inr False \<Rightarrow> goto i At_task_done (emit (Probed i ip) s)
           | Inl x \<Rightarrow> goto i At_loop (say [Unexpected_error x] (emit (Probed i ip) s)))
      | At_connect ip \<Rightarrow>
          (case attempt_adb_connect e ip of
             (ms, Inr True) \<Rightarrow> goto i At_set (say ms (emit (Connect_called i ip (stop_event s)) s))
           | (ms, Inr False) \<Rightarrow>
               goto i At_task_done (say ms (emit (Connect_called i ip (stop_event s)) s))
           | (ms, Inl x) \<Rightarrow>
               goto i At_loop
                 (say (ms @ [Unexpected_error x]) (emit (Connect_called i ip (stop_event s)) s)))
      | At_set \<Rightarrow> goto i At_task_done (emit (Stop_set i) (s\<lparr>stop_event := True\<rparr>))
      | At_task_done \<Rightarrow> goto i At_loop s
      | Exited_worker \<Rightarrow> s)"

fun exec :: "env \<Rightarrow> nat list \<Rightarrow> state \<Rightarrow> state" where
  "exec e [] s = s"
| "exec e (i # is) s = exec e is (worker_step e i s)"

definition all_exited :: "state \<Rightarrow> bool" where
  "all_exited s = list_all (\<lambda>p. p = Exited_worker) (pcs s)"

section \<open>The coordinator\<close>

text \<open>
  The state in which \<^verbatim>\<open>main\<close> has filled the queue and created \<open>w\<close> threads; \<open>g\<close> is
  the module-level \<^verbatim>\<open>stop_event\<close> as \<^verbatim>\<open>main\<close> finds it.
\<close>

definition start_scan :: "nat \<Rightarrow> address list \<Rightarrow> bool \<Rightarrow> msg list \<Rightarrow> state" where
  "start_scan w q g ms =
     \<lparr>queue = q, stop_event = g, pcs = replicate w At_loop, out = ms, trace = []\<rparr>"

text \<open>
  \<^verbatim>\<open>main\<close> only reads the shared state: its loop ends once \<^verbatim>\<open>stop_event\<close> is set or
  the queue is empty (both stay so), and the joins end once every worker has returned.
  Under a schedule after which that is not yet the case \<^verbatim>\<open>main\<close> has not returned: \<open>None\<close>.
\<close>

definition main_returns :: "state \<Rightarrow> bool" where
  "main_returns s = ((stop_event s \<or> queue s = []) \<and> all_exited s)"

definition main :: "env \<Rightarrow> bool \<Rightarrow> nat list \<Rightarrow> state option" where
  "main e g sched =
     (case get_local_network_info e of
        (ms, None) \<Rightarrow>
          Some \<lparr>queue = [], stop_event = g, pcs = [], out = ms @ [Could_not_determine], trace = []\<rparr>
      | (ms, Some n) \<Rightarrow>
          (let q = hosts e n;
               s = exec e sched
                     (start_scan NUM_THREADS q g (ms @ [Scanning_hosts (length q), May_take_a_while]))
           in if main_returns s then Some (say [Scan_complete] s) else None))"

text \<open>
  The script: \<^verbatim>\<open>if __name__ == "__main__": main()\<close>. The interpreter's exit status is 0
  when \<^verbatim>\<open>main\<close> returns; no path through the script calls \<^verbatim>\<open>sys.exit\<close> or lets an
  exception leave \<^verbatim>\<open>main\<close>.
\<close>

definition script :: "env \<Rightarrow> nat list \<Rightarrow> (int \<times> state) option" where
  "script e sched = (case main e False sched of None \<Rightarrow> None | Some s \<Rightarrow> Some (0, s))"

section \<open>Example environments\<close>

text \<open>
  A machine with a loopback interface and one wireless interface on a network with two
  hosts, both of which answer the ping and accept the ADB connection.
\<close>

definition lo_iface :: iface where
  "lo_iface = \<lparr>if_name = ''lo'', af_inet = Some [\<lparr>addr = ''127.0.0.1'', netmask = Some ''255.0.0.0''\<rparr>]\<rparr>"

definition wlan_iface :: iface where
  "wlan_iface =
     \<lparr>if_name = ''wlan0'', af_inet = Some [\<lparr>addr = ''10.0.0.5'', netmask = Some ''255.255.255.252''\<rparr>]\<rparr>"

definition env_home :: env where
  "env_home =
     \<lparr>os_name = ''posix'',
      interfaces = [lo_iface, \<lparr>if_name = ''eth0'', af_inet = None\<rparr>, wlan_iface],
      ipv4_network = (\<lambda>t. if t = ''10.0.0.5/255.255.255.252'' then Inr (167772164, 30) else Inl ValueError),
      hosts = (\<lambda>n. if n = (167772164, 30) then [167772165, 167772166] else []),
      subprocess_run = (\<lambda>c t. case c of
          Ping_cmd _ _ \<Rightarrow> Exited 0 [] []
        | Adb_connect_cmd _ _ \<Rightarrow> Exited 0 ''connected to device'' [])\<rparr>"

text \<open>The same machine with only the loopback interface up.\<close>

definition env_offline :: env where
  "env_offline = env_home\<lparr>interfaces := [lo_iface]\<rparr>"

text \<open>The same network when no host answers the ping.\<close>

definition env_silent :: env where
  "env_silent = env_home\<lparr>subprocess_run := (\<lambda>c t. Exited 1 [] [])\<rparr>"

text \<open>A machine on which neither \<^verbatim>\<open>ping\<close> nor \<^verbatim>\<open>adb\<close> is installed.\<close>

definition env_no_tools :: env where
  "env_no_tools = env_home\<lparr>subprocess_run := (\<lambda>c t. Not_found)\<rparr>"

text \<open>The links of all interfaces, in the order in which the two loops visit them.\<close>

definition all_links :: "iface list \<Rightarrow> link list" where
  "all_links ifs = concat (map (\<lambda>i. case af_inet i of None \<Rightarrow> [] | Some ls \<Rightarrow> ls) ifs)"

section \<open>The collaborators never raise what they promise to absorb\<close>

text \<open>
  C9. \<^verbatim>\<open>ping_host\<close> catches only \<^verbatim>\<open>CalledProcessError\<close> and \<^verbatim>\<open>TimeoutExpired\<close>: when
  launching \<^verbatim>\<open>ping\<close> raises \<^verbatim>\<open>FileNotFoundError\<close> the exception reaches the caller,
  whereas \<^verbatim>\<open>attempt_adb_connect\<close> turns a missing \<^verbatim>\<open>adb\<close> into the result \<open>False\<close>.
\<close>

theorem ping_host_missing_binary_propagates:
  "(subprocess_run e (ping_command e ip) 1 = Not_found \<longrightarrow> ping_host e ip = Inl FileNotFoundError)
   \<and> (subprocess_run e (Adb_connect_cmd ip ADB_PORT) 5 = Not_found
        \<longrightarrow> snd (attempt_adb_connect e ip) = Inr False)"
  by (simp add: ping_host_def attempt_adb_connect_def run_checked_def)

theorem ping_host_missing_binary_propagates_witness:
  "subprocess_run env_no_tools (ping_command env_no_tools 7) 1 = Not_found
   \<and> ping_host env_no_tools 7 = Inl FileNotFoundError
   \<and> subprocess_run env_no_tools (Adb_connect_cmd 7 ADB_PORT) 5 = Not_found
   \<and> snd (attempt_adb_connect env_no_tools 7) = Inr False"
  using ping_host_missing_binary_propagates [of env_no_tools 7]
  by (simp add: env_no_tools_def)

text \<open>
  C5. \<^verbatim>\<open>attempt_adb_connect\<close> returns \<open>False\<close>, and raises nothing, when the connection
  fails (\<^verbatim>\<open>adb\<close> exits with an error, or exits normally without "connected to" in
  its output), when \<^verbatim>\<open>adb\<close> runs into the timeout of 5 seconds and when \<^verbatim>\<open>adb\<close> is
  not installed; in each case what went wrong is only printed.
\<close>

theorem attempt_adb_connect_failures_are_False:
  assumes "r = subprocess_run e (Adb_connect_cmd ip ADB_PORT) 5"
    and "r = Not_found \<or> r = Timed_out
         \<or> (\<exists>rc out err. r = Exited rc out err \<and> (rc \<noteq> 0 \<or> \<not> str_in ''connected to'' out))"
  shows "snd (attempt_adb_connect e ip) = Inr False \<and> fst (attempt_adb_connect e ip) \<noteq> []"
proof -
  consider "r = Not_found" | "r = Timed_out"
    | rc out err where "r = Exited rc out err" "rc \<noteq> 0"
    | out err where "r = Exited 0 out err" "\<not> str_in ''connected to'' out"
    using assms(2) by (metis (full_types))
  then show ?thesis
  proof cases
    case 1
    with assms(1) show ?thesis by (simp add: attempt_adb_connect_def run_checked_def)
  next
    case 2
    with assms(1) show ?thesis by (simp add: attempt_adb_connect_def run_checked_def)
  next
    case 3
    with assms(1) [symmetric] show ?thesis by (simp add: attempt_adb_connect_def run_checked_def)
  next
    case 4
    with assms(1) [symmetric] show ?thesis by (simp add: attempt_adb_connect_def run_checked_def)
  qed
qed

theorem attempt_adb_connect_failures_are_False_witness:
  "snd (attempt_adb_connect env_no_tools 7) = Inr False
   \<and> fst (attempt_adb_connect env_no_tools 7) = [Attempting 7 ADB_PORT, Adb_not_found]
   \<and> snd (attempt_adb_connect env_silent 7) = Inr False"
  using attempt_adb_connect_failures_are_False [of Not_found env_no_tools 7]
    attempt_adb_connect_failures_are_False [of "Exited 1 [] []" env_silent 7]
  by (simp add: env_no_tools_def env_silent_def attempt_adb_connect_def run_checked_def)

text \<open>
  C6. \<^verbatim>\<open>ping_host\<close> runs \<^verbatim>\<open>ping\<close> once, under \<^verbatim>\<open>timeout=1\<close>, and an unreachable host
  is the result \<open>False\<close>: both a \<^verbatim>\<open>ping\<close> that exits with an error and one that is cut
  off by the timeout. Neither \<^verbatim>\<open>CalledProcessError\<close> nor \<^verbatim>\<open>TimeoutExpired\<close> ever
  reaches the caller.
\<close>

theorem ping_host_unreachable_is_False:
  "(subprocess_run e (ping_command e ip) 1 = Timed_out \<longrightarrow> ping_host e ip = Inr False)
   \<and> (\<forall>rc out err. subprocess_run e (ping_command e ip) 1 = Exited rc out err
         \<longrightarrow> ping_host e ip = Inr (rc = 0))
   \<and> ping_host e ip \<noteq> Inl TimeoutExpired
   \<and> (\<forall>err. ping_host e ip \<noteq> Inl (CalledProcessError err))"
  by (auto simp: ping_host_def run_checked_def split: proc_outcome.splits)

theorem ping_host_unreachable_is_False_witness:
  "subprocess_run env_silent (ping_command env_silent 7) 1 = Exited 1 [] []
   \<and> ping_host env_silent 7 = Inr False
   \<and> ping_host env_home 7 = Inr True"
  using ping_host_unreachable_is_False [of env_silent 7] ping_host_unreachable_is_False [of env_home 7]
  by (simp add: env_silent_def env_home_def ping_command_def)

section \<open>Discovery returns the network of the first usable link\<close>

lemma scan_links_find:
  "scan_links e ls =
     (case find usable ls of
        None \<Rightarrow> Inr None
      | Some l \<Rightarrow> (case network_of e l of Inl x \<Rightarrow> Inl x | Inr n \<Rightarrow> Inr (Some n)))"
  by (induction ls) auto

lemma find_append_cases:
  "find P (xs @ ys) = (case find P xs of None \<Rightarrow> find P ys | Some x \<Rightarrow> Some x)"
  by (induction xs) auto

lemma scan_ifaces_find:
  "scan_ifaces e ifs =
     (case find usable (all_links ifs) of
        None \<Rightarrow> Inr None
      | Some l \<Rightarrow> (case network_of e l of Inl x \<Rightarrow> Inl x | Inr n \<Rightarrow> Inr (Some n)))"
proof (induction ifs)
  case Nil
  show ?case by (simp add: all_links_def)
next
  case (Cons i ifs)
  show ?case
  proof (cases "af_inet i")
    case None
    with Cons.IH show ?thesis by (simp add: all_links_def)
  next
    case (Some ls)
    have links: "all_links (i # ifs) = ls @ all_links ifs"
      using Some by (simp add: all_links_def)
    show ?thesis
      using Some Cons.IH
      by (simp add: links find_append_cases scan_links_find split: option.splits sum.splits)
  qed
qed

text \<open>
  C7. \<^verbatim>\<open>get_local_network_info\<close> visits the interfaces in order and, within each, its
  IPv4 links in order. It returns the network built from the first link whose address is
  not \<^verbatim>\<open>'127.0.0.1'\<close> and whose netmask is present and non-empty, and \<open>None\<close> when no
  interface has such a link (or when \<^verbatim>\<open>IPv4Network\<close> rejects that first link).
\<close>

theorem get_local_network_info_first_usable:
  "snd (get_local_network_info e) =
     (case find usable (all_links (interfaces e)) of
        None \<Rightarrow> None
      | Some l \<Rightarrow> (case network_of e l of Inl x \<Rightarrow> None | Inr n \<Rightarrow> Some n))"
  by (simp add: get_local_network_info_def scan_ifaces_find split: option.splits sum.splits)

theorem get_local_network_info_first_usable_witness:
  "snd (get_local_network_info env_home) = Some (167772164, 30)
   \<and> snd (get_local_network_info env_offline) = None"
  using get_local_network_info_first_usable [of env_home]
    get_local_network_info_first_usable [of env_offline]
  by (simp add: env_home_def env_offline_def lo_iface_def wlan_iface_def all_links_def
      usable_def truthy_def network_of_def)

end
